theory Spec2Isabelle
  imports Complex_Main "HOL-Library.Sublist"
begin

section \<open>Numbers, colours and text\<close>

text \<open>
  The script mixes Python integers and floats. Integers are \<open>int\<close>. A float is modelled
  by the rational number its expression denotes (\<open>0.85\<close> is \<open>85/100\<close>,
  \<open>size / 100.0\<close> is the exact quotient), and \<open>int(x)\<close> by truncation toward
  zero. This is an idealisation of binary floating point: rounding is left out. For the
  edge lengths the driver requests (16, 32, ..., 1024) every truncated value of the
  script is the one computed here.
\<close>

type_synonym color = "nat \<times> nat \<times> nat"

definition CLAUDE_ORANGE :: color where
  "CLAUDE_ORANGE = (217, 119, 87)"

definition WHITE :: color where
  "WHITE = (255, 255, 255)"

definition SIZES :: "int list" where
  "SIZES = [16, 32, 64, 128, 256, 512, 1024]"

definition py_int :: "rat \<Rightarrow> int" where
  "py_int x = (if 0 \<le> x then \<lfloor>x\<rfloor> else \<lceil>x\<rceil>)"

fun digits :: "nat \<Rightarrow> string" where
  "digits n =
     (if n < 10 then [''0123456789'' ! n]
      else digits (n div 10) @ [''0123456789'' ! (n mod 10)])"

declare digits.simps [simp del]

definition str :: "int \<Rightarrow> string" where
  "str i = (if i < 0 then ''-'' @ digits (nat (- i)) else digits (nat i))"

section \<open>Images and drawing calls\<close>

text \<open>
  Pillow is not part of the repository. An image is what the script determines of it:
  the mode, the dimensions and the initial colour given to \<open>Image.new\<close>, and the
  sequence of \<open>ImageDraw\<close> calls made on it, each with its arguments. Coordinates
  are floats or integers in the script and rationals here.
\<close>

type_synonym box = "rat \<times> rat \<times> rat \<times> rat"

datatype draw_call =
    Ellipse box color
  | Line "rat \<times> rat" "rat \<times> rat" color int
  | Arc box int int color int
  | RoundedRectangle box int color

record image =
  mode :: string
  img_width :: int
  img_height :: int
  initial :: "nat \<times> nat \<times> nat \<times> nat"
  calls :: "draw_call list"

definition Image_new :: "string \<Rightarrow> int \<times> int \<Rightarrow> nat \<times> nat \<times> nat \<times> nat \<Rightarrow> image" where
  "Image_new m dims c =
     \<lparr>mode = m, img_width = fst dims, img_height = snd dims, initial = c, calls = []\<rparr>"

definition draw_on :: "image \<Rightarrow> draw_call \<Rightarrow> image" where
  "draw_on img c = img\<lparr>calls := calls img @ [c]\<rparr>"

subsection \<open>The locals of \<open>draw_brain_icon\<close>\<close>

definition scale :: "int \<Rightarrow> rat" where
  "scale sz = of_int sz / 100"

definition cx :: "int \<Rightarrow> rat" where
  "cx sz = of_int sz / 2"

definition cy :: "int \<Rightarrow> rat" where
  "cy sz = of_int sz / 2"

definition padding :: "int \<Rightarrow> int" where
  "padding sz = py_int (20 * scale sz)"

definition brain_width :: "int \<Rightarrow> int" where
  "brain_width sz = sz - padding sz * 2"

definition brain_height :: "int \<Rightarrow> int" where
  "brain_height sz = py_int (of_int (brain_width sz) * (85 / 100))"

definition top_y :: "int \<Rightarrow> rat" where
  "top_y sz = cy sz - of_int (brain_height sz div 2) + of_int (py_int (5 * scale sz))"

definition left_x :: "int \<Rightarrow> int" where
  "left_x sz = padding sz"

definition stem_width :: "int \<Rightarrow> int" where
  "stem_width sz = py_int (12 * scale sz)"

definition stem_height :: "int \<Rightarrow> int" where
  "stem_height sz = py_int (15 * scale sz)"

definition line_color :: color where
  "line_color = CLAUDE_ORANGE"

definition line_width :: "int \<Rightarrow> int" where
  "line_width sz = max 1 (py_int (2 * scale sz))"

definition y_pos :: "int \<Rightarrow> rat \<Rightarrow> rat" where
  "y_pos sz offset = top_y sz + of_int (py_int (of_int (brain_height sz) * offset))"

subsection \<open>The drawing calls, in the order of the source\<close>

definition hemispheres :: "int \<Rightarrow> color \<Rightarrow> draw_call list" where
  "hemispheres sz color =
     [Ellipse (of_int (left_x sz), top_y sz,
               cx sz + of_int (py_int (5 * scale sz)), top_y sz + of_int (brain_height sz)) color,
      Ellipse (cx sz - of_int (py_int (5 * scale sz)), top_y sz,
               of_int (sz - padding sz), top_y sz + of_int (brain_height sz)) color]"

definition stem :: "int \<Rightarrow> color \<Rightarrow> draw_call" where
  "stem sz color =
     Ellipse (cx sz - of_int (stem_width sz div 2),
              top_y sz + of_int (brain_height sz) - of_int (py_int (10 * scale sz)),
              cx sz + of_int (stem_width sz div 2),
              top_y sz + of_int (brain_height sz) + of_int (stem_height sz)) color"

definition fissure :: "int \<Rightarrow> draw_call" where
  "fissure sz =
     Line (cx sz, top_y sz + of_int (py_int (10 * scale sz)))
          (cx sz, top_y sz + of_int (brain_height sz) - of_int (py_int (15 * scale sz)))
          line_color (line_width sz)"

definition left_curve :: "int \<Rightarrow> rat \<Rightarrow> draw_call" where
  "left_curve sz offset =
     Arc (of_int (left_x sz) + of_int (py_int (5 * scale sz)),
          y_pos sz offset - of_int (py_int (10 * scale sz)),
          cx sz - of_int (py_int (5 * scale sz)),
          y_pos sz offset + of_int (py_int (10 * scale sz)))
         0 180 line_color (line_width sz)"

definition right_curve :: "int \<Rightarrow> rat \<Rightarrow> draw_call" where
  "right_curve sz offset =
     Arc (cx sz + of_int (py_int (5 * scale sz)),
          y_pos sz offset - of_int (py_int (10 * scale sz)),
          of_int (sz - padding sz - py_int (5 * scale sz)),
          y_pos sz offset + of_int (py_int (10 * scale sz)))
         0 180 line_color (line_width sz)"

definition strokes :: "int \<Rightarrow> draw_call list" where
  "strokes sz =
     fissure sz
     # map (left_curve sz) [25 / 100, 5 / 10, 7 / 10]
     @ map (right_curve sz) [25 / 100, 5 / 10, 7 / 10]"

definition draw_brain_icon :: "image \<Rightarrow> int \<Rightarrow> color \<Rightarrow> image" where
  "draw_brain_icon draw sz color =
     foldl draw_on draw (hemispheres sz color @ [stem sz color] @ strokes sz)"

section \<open>Files, output and the icon renderer\<close>

text \<open>
  The world of the script is the files, a map from path to content, and the lines printed
  so far. A file exists when its path is in the map. Directories are not modelled
  (\<open>os.makedirs\<close> changes nothing here), and writing a file always succeeds, as the
  script assumes.
\<close>

record manifest_entry =
  filename :: string
  idiom :: string
  scale_tag :: string
  size_tag :: string

datatype content = PNG image | JSON "manifest_entry list" "string \<times> int"

record world =
  files :: "string \<rightharpoonup> content"
  stdout :: "string list"

definition print :: "string \<Rightarrow> world \<Rightarrow> world" where
  "print line w = w\<lparr>stdout := stdout w @ [line]\<rparr>"

definition save :: "image \<Rightarrow> string \<Rightarrow> world \<Rightarrow> world" where
  "save img path w = w\<lparr>files := (files w)(path \<mapsto> PNG img)\<rparr>"

text \<open>
  \<open>os.path.join\<close> on POSIX, for two components: an absolute second component
  replaces the first, and a separator is added unless the first is empty or ends in one.
\<close>

definition path_join :: "string \<Rightarrow> string \<Rightarrow> string" where
  "path_join a b =
     (if b \<noteq> [] \<and> hd b = CHR ''/'' then b
      else if a = [] \<or> last a = CHR ''/'' then a @ b
      else a @ ''/'' @ b)"

text \<open>The image that \<open>create_icon\<close> holds when it saves (lines 78 to 92).\<close>

definition icon_image :: "int \<Rightarrow> image" where
  "icon_image sz =
     (let img = Image_new ''RGBA'' (sz, sz) (0, 0, 0, 0);
          corner_radius = py_int (of_int sz * (22 / 100));
          draw = draw_on img
                   (RoundedRectangle (0, 0, of_int (sz - 1), of_int (sz - 1))
                      corner_radius CLAUDE_ORANGE)
      in draw_brain_icon draw sz WHITE)"

definition create_icon :: "int \<Rightarrow> string \<Rightarrow> world \<Rightarrow> world" where
  "create_icon sz output_path w =
     print (''Created '' @ str sz @ ''x'' @ str sz @ '' icon: '' @ output_path)
       (save (icon_image sz) output_path w)"

section \<open>The driver\<close>

definition iconset_dir :: "string \<Rightarrow> string" where
  "iconset_dir script_dir =
     path_join (path_join (path_join (path_join script_dir ''ClaudeMenuBar'') ''ClaudeMenuBar'')
       ''Assets.xcassets'') ''AppIcon.appiconset''"

text \<open>One pass of the loop over \<open>SIZES\<close> (lines 105 to 113).\<close>

definition generate_size :: "string \<Rightarrow> world \<Rightarrow> int \<Rightarrow> world" where
  "generate_size dir w sz =
     (let output_path = path_join dir (''icon_'' @ str sz @ ''x'' @ str sz @ ''.png'');
          w1 = create_icon sz output_path w
      in if sz \<le> 512
         then (let output_path_2x =
                     path_join dir (''icon_'' @ str sz @ ''x'' @ str sz @ ''@2x.png'')
               in create_icon (sz * 2) output_path_2x w1)
         else w1)"

definition generate_icons :: "string \<Rightarrow> world \<Rightarrow> world" where
  "generate_icons dir w = foldl (generate_size dir) w SIZES"

definition entry :: "string \<Rightarrow> string \<Rightarrow> string \<Rightarrow> string \<Rightarrow> manifest_entry" where
  "entry f i sc s = \<lparr>filename = f, idiom = i, scale_tag = sc, size_tag = s\<rparr>"

definition contents_images :: "manifest_entry list" where
  "contents_images =
     [entry ''icon_16x16.png'' ''mac'' ''1x'' ''16x16'',
      entry ''icon_16x16@2x.png'' ''mac'' ''2x'' ''16x16'',
      entry ''icon_32x32.png'' ''mac'' ''1x'' ''32x32'',
      entry ''icon_32x32@2x.png'' ''mac'' ''2x'' ''32x32'',
      entry ''icon_128x128.png'' ''mac'' ''1x'' ''128x128'',
      entry ''icon_128x128@2x.png'' ''mac'' ''2x'' ''128x128'',
      entry ''icon_256x256.png'' ''mac'' ''1x'' ''256x256'',
      entry ''icon_256x256@2x.png'' ''mac'' ''2x'' ''256x256'',
      entry ''icon_512x512.png'' ''mac'' ''1x'' ''512x512'',
      entry ''icon_512x512@2x.png'' ''mac'' ''2x'' ''512x512'']"

definition write_contents :: "string \<Rightarrow> world \<Rightarrow> world" where
  "write_contents dir w =
     (let contents_path = path_join dir ''Contents.json''
      in print (''Updated '' @ contents_path)
           (w\<lparr>files := (files w)(contents_path \<mapsto> JSON contents_images (''xcode'', 1))\<rparr>))"

subsection \<open>Packaging\<close>

definition iconset_tmp :: string where
  "iconset_tmp = ''/tmp/ClaudeMenuBar.iconset''"

definition icon_mappings :: "(int \<times> string) list" where
  "icon_mappings =
     [(16, ''icon_16x16.png''),
      (32, ''icon_16x16@2x.png''),
      (32, ''icon_32x32.png''),
      (64, ''icon_32x32@2x.png''),
      (128, ''icon_128x128.png''),
      (256, ''icon_128x128@2x.png''),
      (256, ''icon_256x256.png''),
      (512, ''icon_256x256@2x.png''),
      (512, ''icon_512x512.png''),
      (1024, ''icon_512x512@2x.png'')]"

text \<open>The value of \<open>src\<close> at line 161, for one pair of the mapping.\<close>

definition copy_src :: "string \<Rightarrow> int \<Rightarrow> string" where
  "copy_src dir sz =
     (let src = path_join dir (''icon_'' @ str sz @ ''x'' @ str sz @ ''.png'')
      in if sz > 512 then path_join dir ''icon_512x512@2x.png'' else src)"

definition copy_icon :: "string \<Rightarrow> world \<Rightarrow> int \<times> string \<Rightarrow> world" where
  "copy_icon dir w m =
     (let src = copy_src dir (fst m);
          dst = path_join iconset_tmp (snd m)
      in case files w src of
           Some f \<Rightarrow> w\<lparr>files := (files w)(dst \<mapsto> f)\<rparr>
         | None \<Rightarrow> w)"

definition copy_icons :: "string \<Rightarrow> world \<Rightarrow> world" where
  "copy_icons dir w = foldl (copy_icon dir) w icon_mappings"







section \<open>Notions used in the statements\<close>

text \<open>The world in which \<open>main\<close> calls the packaging command (after line 164).\<close>

definition before_packaging :: "string \<Rightarrow> world \<Rightarrow> world" where
  "before_packaging script_dir w =
     (let dir = iconset_dir script_dir
      in copy_icons dir
           (print (CHR 0x0A # ''Creating .icns file...'')
              (write_contents dir (generate_icons dir w))))"

definition empty_world :: world where
  "empty_world = \<lparr>files = Map.empty, stdout = []\<rparr>"

fun is_stroke :: "draw_call \<Rightarrow> bool" where
  "is_stroke (Line _ _ _ _) = True"
| "is_stroke (Arc _ _ _ _ _) = True"
| "is_stroke _ = False"

fun is_background :: "draw_call \<Rightarrow> bool" where
  "is_background (RoundedRectangle _ _ _) = True"
| "is_background _ = False"

fun fill :: "draw_call \<Rightarrow> color" where
  "fill (Ellipse _ c) = c"
| "fill (Line _ _ c _) = c"
| "fill (Arc _ _ _ c _) = c"
| "fill (RoundedRectangle _ _ c) = c"

fun is_png :: "content option \<Rightarrow> bool" where
  "is_png (Some (PNG _)) = True"
| "is_png _ = False"

definition png_files_in :: "string \<Rightarrow> world \<Rightarrow> string set" where
  "png_files_in dir w = {p. prefix (dir @ ''/'') p \<and> is_png (files w p)}"

definition generated_names :: "string list" where
  "generated_names =
     [''icon_16x16.png'', ''icon_16x16@2x.png'', ''icon_32x32.png'', ''icon_32x32@2x.png'',
      ''icon_64x64.png'', ''icon_64x64@2x.png'', ''icon_128x128.png'', ''icon_128x128@2x.png'',
      ''icon_256x256.png'', ''icon_256x256@2x.png'', ''icon_512x512.png'',
      ''icon_512x512@2x.png'', ''icon_1024x1024.png'']"

text \<open>A 16 by 16 canvas whose rounded-rectangle background is blue.\<close>

definition blue_canvas :: image where
  "blue_canvas =
     draw_on (Image_new ''RGBA'' (16, 16) (0, 0, 0, 0))
       (RoundedRectangle (0, 0, 15, 15) 3 (0, 0, 255))"

text \<open>The file names that the f-strings of lines 107 and 112 build.\<close>

definition icon_name :: "int \<Rightarrow> string" where
  "icon_name sz = ''icon_'' @ str sz @ ''x'' @ str sz @ ''.png''"

definition icon_name_2x :: "int \<Rightarrow> string" where
  "icon_name_2x sz = ''icon_'' @ str sz @ ''x'' @ str sz @ ''@2x.png''"




section \<open>Text and paths\<close>

lemma str_sizes:
  "str 16 = ''16''" "str 32 = ''32''" "str 64 = ''64''" "str 128 = ''128''"
  "str 256 = ''256''" "str 512 = ''512''" "str 1024 = ''1024''"
  by code_simp+

lemma path_join_suffix:
  assumes "b \<noteq> []" "hd b \<noteq> CHR ''/''"
  shows "path_join a b \<noteq> [] \<and> last (path_join a b) = last b"
  using assms by (simp add: path_join_def)

lemma iconset_dir_last:
  "iconset_dir sd \<noteq> [] \<and> last (iconset_dir sd) = CHR ''t''"
  unfolding iconset_dir_def using path_join_suffix [of "''AppIcon.appiconset''"] by simp

lemma in_iconset_dir:
  assumes "n \<noteq> []" "hd n \<noteq> CHR ''/''"
  shows "path_join (iconset_dir sd) n = iconset_dir sd @ ''/'' @ n"
  using assms iconset_dir_last [of sd] by (simp add: path_join_def)

lemma in_iconset_tmp:
  assumes "n \<noteq> []" "hd n \<noteq> CHR ''/''"
  shows "path_join iconset_tmp n = iconset_tmp @ ''/'' @ n"
  using assms by (simp add: path_join_def iconset_tmp_def)

section \<open>The image of one icon\<close>

lemma foldl_draw_on: "foldl draw_on img cs = img\<lparr>calls := calls img @ cs\<rparr>"
  by (induction cs arbitrary: img) (simp_all add: draw_on_def)

lemma draw_brain_icon_calls:
  "draw_brain_icon draw sz color =
     draw\<lparr>calls := calls draw @ hemispheres sz color @ [stem sz color] @ strokes sz\<rparr>"
  unfolding draw_brain_icon_def foldl_draw_on by simp

lemma icon_image_eq:
  "icon_image sz =
     \<lparr>mode = ''RGBA'', img_width = sz, img_height = sz, initial = (0, 0, 0, 0),
      calls = RoundedRectangle (0, 0, of_int (sz - 1), of_int (sz - 1))
                (py_int (of_int sz * (22 / 100))) CLAUDE_ORANGE
              # hemispheres sz WHITE @ [stem sz WHITE] @ strokes sz\<rparr>"
  by (simp add: icon_image_def Image_new_def draw_on_def draw_brain_icon_calls)

lemma create_icon_files:
  "files (create_icon sz p w) = (files w)(p \<mapsto> PNG (icon_image sz))"
  by (simp add: create_icon_def print_def save_def)

text \<open>
  C9. For every edge length \<open>n\<close>, the file that \<open>create_icon n\<close> saves is the image
  built by \<open>Image.new\<close> with dimensions \<open>(n, n)\<close>: its width and its height are both
  \<open>n\<close>, so the canvas is square.
\<close>

theorem create_icon_canvas_square:
  "files (create_icon n p w) p = Some (PNG (icon_image n))
   \<and> img_width (icon_image n) = n \<and> img_height (icon_image n) = n"
  by (simp add: create_icon_files icon_image_eq)


section \<open>The strokes of the glyph\<close>

lemma strokes_fill:
  "filter is_stroke (strokes sz) = strokes sz"
  "map fill (strokes sz) = replicate 7 CLAUDE_ORANGE"
  by (simp_all add: strokes_def fissure_def left_curve_def right_curve_def
      line_color_def numeral_eq_Suc)

lemma glyph_not_strokes:
  "filter is_stroke (hemispheres sz c) = []" "is_stroke (stem sz c) = False"
  "filter is_background (hemispheres sz c) = []" "is_background (stem sz c) = False"
  "filter is_background (strokes sz) = []"
  by (simp_all add: hemispheres_def stem_def strokes_def
      fissure_def left_curve_def right_curve_def)

text \<open>
  C5, as amended. \<open>draw_brain_icon\<close> is given the foreground colour only. Whatever
  canvas, edge length and colour it is called with, the seven strokes it adds (the central
  line and the six arcs) are drawn in the constant \<open>CLAUDE_ORANGE\<close>. In the image of
  \<open>create_icon\<close>, whose rounded rectangle is filled with \<open>CLAUDE_ORANGE\<close> too, the
  strokes therefore have the colour of the background.
\<close>

theorem strokes_are_claude_orange:
  "map fill (filter is_stroke (drop (length (calls draw)) (calls (draw_brain_icon draw sz color))))
     = replicate 7 CLAUDE_ORANGE
   \<and> map fill (filter is_stroke (calls (icon_image sz))) = replicate 7 CLAUDE_ORANGE
   \<and> map fill (filter is_background (calls (icon_image sz))) = [CLAUDE_ORANGE]"
  by (simp add: draw_brain_icon_calls icon_image_eq strokes_fill glyph_not_strokes)

text \<open>
  C5, as stated, fails: on a canvas whose rounded rectangle was filled with blue,
  \<open>draw_brain_icon\<close> still draws its seven strokes in orange, not in the colour of the
  background.
\<close>

theorem strokes_follow_background_counterexample:
  "map fill (filter is_background (calls (draw_brain_icon blue_canvas 16 WHITE))) = [(0, 0, 255)]
   \<and> map fill (filter is_stroke (calls (draw_brain_icon blue_canvas 16 WHITE)))
       = replicate 7 (217, 119, 87)
   \<and> (217, 119, 87) \<noteq> (0, 0, 255 :: nat)"
  by (simp add: draw_brain_icon_calls strokes_fill glyph_not_strokes blue_canvas_def
      draw_on_def Image_new_def CLAUDE_ORANGE_def)

section \<open>The vertical position of the glyph\<close>





section \<open>The files the driver writes\<close>

lemma generate_icons_files:
  "files (generate_icons (iconset_dir sd) w) =
     (files w)
       (iconset_dir sd @ ''/icon_16x16.png'' \<mapsto> PNG (icon_image 16),
        iconset_dir sd @ ''/icon_16x16@2x.png'' \<mapsto> PNG (icon_image 32),
        iconset_dir sd @ ''/icon_32x32.png'' \<mapsto> PNG (icon_image 32),
        iconset_dir sd @ ''/icon_32x32@2x.png'' \<mapsto> PNG (icon_image 64),
        iconset_dir sd @ ''/icon_64x64.png'' \<mapsto> PNG (icon_image 64),
        iconset_dir sd @ ''/icon_64x64@2x.png'' \<mapsto> PNG (icon_image 128),
        iconset_dir sd @ ''/icon_128x128.png'' \<mapsto> PNG (icon_image 128),
        iconset_dir sd @ ''/icon_128x128@2x.png'' \<mapsto> PNG (icon_image 256),
        iconset_dir sd @ ''/icon_256x256.png'' \<mapsto> PNG (icon_image 256),
        iconset_dir sd @ ''/icon_256x256@2x.png'' \<mapsto> PNG (icon_image 512),
        iconset_dir sd @ ''/icon_512x512.png'' \<mapsto> PNG (icon_image 512),
        iconset_dir sd @ ''/icon_512x512@2x.png'' \<mapsto> PNG (icon_image 1024),
        iconset_dir sd @ ''/icon_1024x1024.png'' \<mapsto> PNG (icon_image 1024))"
  by (simp add: generate_icons_def SIZES_def generate_size_def create_icon_files
      str_sizes in_iconset_dir)

lemma iconset_dir_suffix: "\<exists>x. iconset_dir sd = x @ ''/AppIcon.appiconset''"
proof -
  let ?a = "path_join (path_join (path_join sd ''ClaudeMenuBar'') ''ClaudeMenuBar'') ''Assets.xcassets''"
  have "?a \<noteq> [] \<and> last ?a = CHR ''s''"
    using path_join_suffix [of "''Assets.xcassets''"] by simp
  then have "iconset_dir sd = ?a @ ''/AppIcon.appiconset''"
    unfolding iconset_dir_def by (simp add: path_join_def)
  then show ?thesis by blast
qed

lemma tmp_not_in_dir:
  assumes "CHR ''/'' \<notin> set n"
  shows "\<not> prefix (iconset_dir sd @ ''/'') (iconset_tmp @ ''/'' @ n)"
proof
  assume "prefix (iconset_dir sd @ ''/'') (iconset_tmp @ ''/'' @ n)"
  then obtain r where r: "iconset_tmp @ ''/'' @ n = (iconset_dir sd @ ''/'') @ r"
    by (auto simp: prefix_def)
  obtain x where x: "iconset_dir sd = x @ ''/AppIcon.appiconset''"
    using iconset_dir_suffix by blast
  from r x have "''/tmp/ClaudeMenuBar.iconset/'' @ n = x @ ''/AppIcon.appiconset/'' @ r"
    by (simp add: iconset_tmp_def)
  then show False using assms
    by (auto simp: Cons_eq_append_conv)
qed

lemma dir_neq_tmp:
  assumes "CHR ''/'' \<notin> set n'"
  shows "iconset_dir sd @ CHR ''/'' # n \<noteq> iconset_tmp @ CHR ''/'' # n'"
    and "iconset_tmp @ CHR ''/'' # n' \<noteq> iconset_dir sd @ CHR ''/'' # n"
proof -
  have "\<not> prefix (iconset_dir sd @ ''/'') (iconset_tmp @ ''/'' @ n')"
    using assms by (rule tmp_not_in_dir)
  then show "iconset_dir sd @ CHR ''/'' # n \<noteq> iconset_tmp @ CHR ''/'' # n'"
    by (metis append_Cons append_Nil append.assoc prefixI)
  then show "iconset_tmp @ CHR ''/'' # n' \<noteq> iconset_dir sd @ CHR ''/'' # n"
    by (rule not_sym)
qed

lemma write_contents_files:
  "files (write_contents (iconset_dir sd) w) =
     (files w)(iconset_dir sd @ ''/Contents.json'' \<mapsto> JSON contents_images (''xcode'', 1))"
  by (simp add: write_contents_def Let_def print_def in_iconset_dir)

lemma copy_src_sizes:
  "copy_src (iconset_dir sd) 16 = iconset_dir sd @ ''/icon_16x16.png''"
  "copy_src (iconset_dir sd) 32 = iconset_dir sd @ ''/icon_32x32.png''"
  "copy_src (iconset_dir sd) 64 = iconset_dir sd @ ''/icon_64x64.png''"
  "copy_src (iconset_dir sd) 128 = iconset_dir sd @ ''/icon_128x128.png''"
  "copy_src (iconset_dir sd) 256 = iconset_dir sd @ ''/icon_256x256.png''"
  "copy_src (iconset_dir sd) 512 = iconset_dir sd @ ''/icon_512x512.png''"
  "copy_src (iconset_dir sd) 1024 = iconset_dir sd @ ''/icon_512x512@2x.png''"
  by (simp_all add: copy_src_def str_sizes in_iconset_dir)

lemma before_packaging_files:
  "files (before_packaging sd w) =
     (files (generate_icons (iconset_dir sd) w))
       (iconset_dir sd @ ''/Contents.json'' \<mapsto> JSON contents_images (''xcode'', 1),
        iconset_tmp @ ''/icon_16x16.png'' \<mapsto> PNG (icon_image 16),
        iconset_tmp @ ''/icon_16x16@2x.png'' \<mapsto> PNG (icon_image 32),
        iconset_tmp @ ''/icon_32x32.png'' \<mapsto> PNG (icon_image 32),
        iconset_tmp @ ''/icon_32x32@2x.png'' \<mapsto> PNG (icon_image 64),
        iconset_tmp @ ''/icon_128x128.png'' \<mapsto> PNG (icon_image 128),
        iconset_tmp @ ''/icon_128x128@2x.png'' \<mapsto> PNG (icon_image 256),
        iconset_tmp @ ''/icon_256x256.png'' \<mapsto> PNG (icon_image 256),
        iconset_tmp @ ''/icon_256x256@2x.png'' \<mapsto> PNG (icon_image 512),
        iconset_tmp @ ''/icon_512x512.png'' \<mapsto> PNG (icon_image 512),
        iconset_tmp @ ''/icon_512x512@2x.png'' \<mapsto> PNG (icon_image 1024))"
  unfolding before_packaging_def Let_def copy_icons_def icon_mappings_def
  by (simp add: copy_icon_def copy_src_sizes in_iconset_tmp write_contents_files print_def
      generate_icons_files dir_neq_tmp)

lemma path_join_inject:
  assumes "a \<noteq> []" "hd a \<noteq> CHR ''/''" "b \<noteq> []" "hd b \<noteq> CHR ''/''"
  shows "path_join d a = path_join d b \<longleftrightarrow> a = b"
  using assms by (simp add: path_join_def)

text \<open>
  C2. In the mapping of the packaging step, the pair for 1024 has the destination name
  \<open>icon_512x512@2x.png\<close>, and its source is the file \<open>icon_512x512@2x.png\<close> of
  the icon-set directory, not \<open>icon_1024x1024.png\<close>; for every pair with size at
  most 512 the source is \<open>icon_{size}x{size}.png\<close>. When \<open>main\<close> reaches the
  packaging command, the temporary \<open>icon_512x512@2x.png\<close> holds what that source held
  after the icons were generated.
\<close>

theorem packaging_sources:
  "(1024, ''icon_512x512@2x.png'') \<in> set icon_mappings
   \<and> copy_src dir 1024 = path_join dir ''icon_512x512@2x.png''
   \<and> copy_src dir 1024 \<noteq> path_join dir ''icon_1024x1024.png''
   \<and> (\<forall>(sz, name) \<in> set icon_mappings.
         sz \<le> 512 \<longrightarrow> copy_src dir sz = path_join dir (''icon_'' @ str sz @ ''x'' @ str sz @ ''.png''))
   \<and> files (before_packaging sd w) (path_join iconset_tmp ''icon_512x512@2x.png'') =
       files (generate_icons (iconset_dir sd) w) (copy_src (iconset_dir sd) 1024)"
proof (intro conjI)
  show "(1024, ''icon_512x512@2x.png'') \<in> set icon_mappings"
    by (simp add: icon_mappings_def)
  show "copy_src dir 1024 = path_join dir ''icon_512x512@2x.png''"
    by (simp add: copy_src_def)
  then show "copy_src dir 1024 \<noteq> path_join dir ''icon_1024x1024.png''"
    by (simp add: path_join_inject)
  show "\<forall>(sz, name) \<in> set icon_mappings.
         sz \<le> 512 \<longrightarrow> copy_src dir sz = path_join dir (''icon_'' @ str sz @ ''x'' @ str sz @ ''.png'')"
    by (simp add: copy_src_def Let_def)
  show "files (before_packaging sd w) (path_join iconset_tmp ''icon_512x512@2x.png'') =
       files (generate_icons (iconset_dir sd) w) (copy_src (iconset_dir sd) 1024)"
    by (simp add: before_packaging_files generate_icons_files copy_src_sizes in_iconset_tmp)
qed

theorem packaging_sources_witness:
  "(16, ''icon_16x16.png'') \<in> set icon_mappings \<and> (16::int) \<le> 512
   \<and> copy_src ''/repo'' 16 = ''/repo/icon_16x16.png''"
proof -
  have m: "(16, ''icon_16x16.png'') \<in> set icon_mappings"
    by (simp add: icon_mappings_def)
  from packaging_sources [of "''/repo''"]
  have "\<forall>(sz, name) \<in> set icon_mappings.
         sz \<le> 512 \<longrightarrow> copy_src ''/repo'' sz = path_join ''/repo'' (''icon_'' @ str sz @ ''x'' @ str sz @ ''.png'')"
    by blast
  with m have "copy_src ''/repo'' 16 = path_join ''/repo'' (''icon_'' @ str 16 @ ''x'' @ str 16 @ ''.png'')"
    by fastforce
  then show ?thesis using m by (simp add: str_sizes path_join_def)
qed

lemma generate_icons_dom:
  "dom (files (generate_icons (iconset_dir sd) w)) =
     dom (files w) \<union> (\<lambda>n. iconset_dir sd @ ''/'' @ n) ` set generated_names"
  unfolding generate_icons_files generated_names_def by (simp add: insert_commute)

lemma card_generated:
  "card ((\<lambda>n. d @ ''/'' @ n) ` set generated_names) = 13"
proof -
  have "inj_on (\<lambda>n. d @ ''/'' @ n) (set generated_names)"
    by (simp add: inj_on_def)
  then have "card ((\<lambda>n. d @ ''/'' @ n) ` set generated_names) = card (set generated_names)"
    by (rule card_image)
  also have "\<dots> = length generated_names"
    by (rule distinct_card) (simp add: generated_names_def)
  also have "\<dots> = 13"
    by (simp add: generated_names_def)
  finally show ?thesis .
qed

lemma contents_filenames:
  "map filename contents_images =
     [''icon_16x16.png'', ''icon_16x16@2x.png'', ''icon_32x32.png'', ''icon_32x32@2x.png'',
      ''icon_128x128.png'', ''icon_128x128@2x.png'', ''icon_256x256.png'',
      ''icon_256x256@2x.png'', ''icon_512x512.png'', ''icon_512x512@2x.png'']"
  by (simp add: contents_images_def entry_def)

lemma manifest_files_exist:
  "list_all (\<lambda>n. is_png (files (before_packaging sd w) (path_join (iconset_dir sd) n)))
     (map filename contents_images)"
  unfolding contents_filenames
  by (simp add: before_packaging_files generate_icons_files in_iconset_dir dir_neq_tmp)

text \<open>
  C3. The manifest has exactly 10 image entries and is what the driver writes to
  \<open>Contents.json\<close>. When the driver has generated the icons, written the manifest and
  filled the temporary directory, every entry's file name is a PNG file of the icon-set
  directory. The entries' files are a strict subset of the files the loop generates:
  \<open>icon_64x64.png\<close> and \<open>icon_1024x1024.png\<close> are generated and have no entry.
\<close>

theorem manifest_entries_exist:
  "length contents_images = 10
   \<and> files (before_packaging sd w) (path_join (iconset_dir sd) ''Contents.json'')
       = Some (JSON contents_images (''xcode'', 1))
   \<and> (\<forall>e \<in> set contents_images.
         is_png (files (before_packaging sd w) (path_join (iconset_dir sd) (filename e))))
   \<and> (\<lambda>e. path_join (iconset_dir sd) (filename e)) ` set contents_images
       \<subset> dom (files (generate_icons (iconset_dir sd) empty_world))
   \<and> path_join (iconset_dir sd) ''icon_64x64.png''
       \<in> dom (files (generate_icons (iconset_dir sd) empty_world))
         - (\<lambda>e. path_join (iconset_dir sd) (filename e)) ` set contents_images
   \<and> path_join (iconset_dir sd) ''icon_1024x1024.png''
       \<in> dom (files (generate_icons (iconset_dir sd) empty_world))
         - (\<lambda>e. path_join (iconset_dir sd) (filename e)) ` set contents_images"
proof -
  let ?d = "iconset_dir sd"
  let ?M = "(\<lambda>e. path_join ?d (filename e)) ` set contents_images"
  let ?G = "dom (files (generate_icons ?d empty_world))"
  have M: "?M = (\<lambda>n. ?d @ ''/'' @ n) ` set (map filename contents_images)"
    unfolding contents_filenames by (simp add: contents_images_def entry_def in_iconset_dir)
  have G: "?G = (\<lambda>n. ?d @ ''/'' @ n) ` set generated_names"
    by (simp add: generate_icons_dom empty_world_def)
  have len: "length contents_images = 10"
    by (simp add: contents_images_def)
  have json: "files (before_packaging sd w) (path_join ?d ''Contents.json'')
       = Some (JSON contents_images (''xcode'', 1))"
    by (simp add: before_packaging_files in_iconset_dir dir_neq_tmp)
  have ex: "\<forall>e \<in> set contents_images. is_png (files (before_packaging sd w) (path_join ?d (filename e)))"
    using manifest_files_exist [of sd w] by (simp add: list_all_iff)
  have "set (map filename contents_images) \<subseteq> set generated_names"
    unfolding contents_filenames generated_names_def by simp
  then have sub: "?M \<subseteq> ?G"
    unfolding M G by (rule image_mono)
  have a: "path_join ?d ''icon_64x64.png'' \<in> ?G - ?M"
    unfolding M G contents_filenames generated_names_def by (simp add: in_iconset_dir)
  have b: "path_join ?d ''icon_1024x1024.png'' \<in> ?G - ?M"
    unfolding M G contents_filenames generated_names_def by (simp add: in_iconset_dir)
  from sub a have "?M \<subset> ?G" by blast
  with len json ex a b show ?thesis by blast
qed

theorem manifest_entries_exist_witness:
  "entry ''icon_16x16.png'' ''mac'' ''1x'' ''16x16'' \<in> set contents_images
   \<and> is_png (files (before_packaging ''/repo'' empty_world)
        (path_join (iconset_dir ''/repo'') ''icon_16x16.png''))"
proof -
  have m: "entry ''icon_16x16.png'' ''mac'' ''1x'' ''16x16'' \<in> set contents_images"
    by (simp add: contents_images_def)
  from manifest_entries_exist [of "''/repo''" empty_world]
  have "\<forall>e \<in> set contents_images.
         is_png (files (before_packaging ''/repo'' empty_world)
           (path_join (iconset_dir ''/repo'') (filename e)))"
    by blast
  with m have "is_png (files (before_packaging ''/repo'' empty_world)
           (path_join (iconset_dir ''/repo'') (filename (entry ''icon_16x16.png'' ''mac'' ''1x'' ''16x16''))))"
    by blast
  then show ?thesis using m by (simp add: entry_def)
qed

lemma icon_names:
  "icon_name 16 = ''icon_16x16.png''" "icon_name_2x 16 = ''icon_16x16@2x.png''"
  "icon_name 32 = ''icon_32x32.png''" "icon_name_2x 32 = ''icon_32x32@2x.png''"
  "icon_name 64 = ''icon_64x64.png''" "icon_name_2x 64 = ''icon_64x64@2x.png''"
  "icon_name 128 = ''icon_128x128.png''" "icon_name_2x 128 = ''icon_128x128@2x.png''"
  "icon_name 256 = ''icon_256x256.png''" "icon_name_2x 256 = ''icon_256x256@2x.png''"
  "icon_name 512 = ''icon_512x512.png''" "icon_name_2x 512 = ''icon_512x512@2x.png''"
  "icon_name 1024 = ''icon_1024x1024.png''"
  by (simp_all add: icon_name_def icon_name_2x_def str_sizes)

text \<open>
  C10. For every edge \<open>n \<le> 512\<close> of the size list, the file \<open>icon_{n}x{n}@2x.png\<close>
  holds, after the loop, the image that \<open>create_icon (n * 2)\<close> renders; and when
  \<open>n * 2\<close> is in the size list too, it holds the very image of
  \<open>icon_{2n}x{2n}.png\<close>.
\<close>

theorem retina_is_double_size:
  "\<forall>n \<in> set SIZES. n \<le> 512 \<longrightarrow>
     files (generate_icons (iconset_dir sd) w) (path_join (iconset_dir sd) (icon_name_2x n))
       = Some (PNG (icon_image (n * 2)))
     \<and> (n * 2 \<in> set SIZES \<longrightarrow>
          files (generate_icons (iconset_dir sd) w) (path_join (iconset_dir sd) (icon_name_2x n))
            = files (generate_icons (iconset_dir sd) w)
                (path_join (iconset_dir sd) (icon_name (n * 2))))"
  by (simp add: SIZES_def icon_names generate_icons_files in_iconset_dir)

theorem retina_is_double_size_witness:
  "(16::int) \<in> set SIZES \<and> (16::int) \<le> 512 \<and> (16::int) * 2 \<in> set SIZES
   \<and> files (generate_icons (iconset_dir ''/repo'') empty_world)
        (path_join (iconset_dir ''/repo'') ''icon_16x16@2x.png'')
       = Some (PNG (icon_image 32))
   \<and> files (generate_icons (iconset_dir ''/repo'') empty_world)
        (path_join (iconset_dir ''/repo'') ''icon_16x16@2x.png'')
       = files (generate_icons (iconset_dir ''/repo'') empty_world)
        (path_join (iconset_dir ''/repo'') ''icon_32x32.png'')"
proof -
  have m: "(16::int) \<in> set SIZES" "(16::int) \<le> 512" "(16::int) * 2 \<in> set SIZES"
    by (simp_all add: SIZES_def)
  from retina_is_double_size [of "''/repo''" empty_world] m
  have "files (generate_icons (iconset_dir ''/repo'') empty_world)
          (path_join (iconset_dir ''/repo'') (icon_name_2x 16)) = Some (PNG (icon_image (16 * 2)))
     \<and> files (generate_icons (iconset_dir ''/repo'') empty_world)
          (path_join (iconset_dir ''/repo'') (icon_name_2x 16))
        = files (generate_icons (iconset_dir ''/repo'') empty_world)
            (path_join (iconset_dir ''/repo'') (icon_name (16 * 2)))"
    by blast
  then show ?thesis using m by (auto simp: icon_names)
qed

lemma before_packaging_dom:
  "dom (files (before_packaging sd empty_world)) =
     (\<lambda>n. iconset_dir sd @ ''/'' @ n) ` set generated_names
     \<union> {iconset_dir sd @ ''/Contents.json''}
     \<union> (\<lambda>n. iconset_tmp @ ''/'' @ n) ` set (map snd icon_mappings)"
  unfolding before_packaging_files generate_icons_files generated_names_def icon_mappings_def
  by (simp add: empty_world_def insert_commute)

lemma png_files_before_packaging:
  "png_files_in (iconset_dir sd) (before_packaging sd empty_world) =
     (\<lambda>n. iconset_dir sd @ ''/'' @ n) ` set generated_names"
proof (rule set_eqI, rule iffI)
  fix p
  assume "p \<in> png_files_in (iconset_dir sd) (before_packaging sd empty_world)"
  then have pre: "prefix (iconset_dir sd @ ''/'') p"
    and png: "is_png (files (before_packaging sd empty_world) p)"
    by (simp_all add: png_files_in_def)
  from png have "p \<in> dom (files (before_packaging sd empty_world))"
    by (cases "files (before_packaging sd empty_world) p") auto
  then consider
      "p \<in> (\<lambda>n. iconset_dir sd @ ''/'' @ n) ` set generated_names"
    | "p = iconset_dir sd @ ''/Contents.json''"
    | "p \<in> (\<lambda>n. iconset_tmp @ ''/'' @ n) ` set (map snd icon_mappings)"
    unfolding before_packaging_dom by blast
  then show "p \<in> (\<lambda>n. iconset_dir sd @ ''/'' @ n) ` set generated_names"
  proof cases
    case 1
    then show ?thesis .
  next
    case 2
    then have "files (before_packaging sd empty_world) p = Some (JSON contents_images (''xcode'', 1))"
      by (simp add: before_packaging_files dir_neq_tmp)
    with png show ?thesis by simp
  next
    case 3
    then obtain n where "n \<in> set (map snd icon_mappings)" "p = iconset_tmp @ ''/'' @ n"
      by blast
    moreover from this have "CHR ''/'' \<notin> set n"
      by (auto simp: icon_mappings_def)
    ultimately show ?thesis using pre tmp_not_in_dir [of n sd] by simp
  qed
next
  fix p
  assume "p \<in> (\<lambda>n. iconset_dir sd @ ''/'' @ n) ` set generated_names"
  then obtain n where n: "n \<in> set generated_names" and p: "p = iconset_dir sd @ ''/'' @ n"
    by blast
  have "list_all (\<lambda>n. is_png (files (before_packaging sd empty_world) (iconset_dir sd @ ''/'' @ n)))
          generated_names"
    unfolding generated_names_def
    by (simp add: before_packaging_files generate_icons_files dir_neq_tmp)
  with n have "is_png (files (before_packaging sd empty_world) (iconset_dir sd @ ''/'' @ n))"
    by (simp add: list_all_iff)
  with p show "p \<in> png_files_in (iconset_dir sd) (before_packaging sd empty_world)"
    by (simp add: png_files_in_def)
qed

text \<open>
  C1, as amended. Starting with no files, the PNG files of the icon-set directory when
  the driver has generated the icons, written the manifest and filled the temporary
  directory are exactly 13: \<open>icon_{n}x{n}.png\<close> for each of the seven edges of the size
  list, and \<open>icon_{n}x{n}@2x.png\<close> for each of the six edges up to 512 (64 among
  them). They are the files the loop over the sizes writes.
\<close>

theorem driver_writes_thirteen_icons:
  "png_files_in (iconset_dir sd) (before_packaging sd empty_world) =
     (\<lambda>n. path_join (iconset_dir sd) n) `
       (set (map icon_name SIZES) \<union> set (map icon_name_2x (filter (\<lambda>sz. sz \<le> 512) SIZES)))
   \<and> card (png_files_in (iconset_dir sd) (before_packaging sd empty_world)) = 13
   \<and> dom (files (generate_icons (iconset_dir sd) w)) =
       dom (files w) \<union> png_files_in (iconset_dir sd) (before_packaging sd empty_world)"
proof -
  have "set (map icon_name SIZES) \<union> set (map icon_name_2x (filter (\<lambda>sz. sz \<le> 512) SIZES))
          = set generated_names"
    by (simp add: SIZES_def icon_names generated_names_def insert_commute)
  moreover
  have "\<forall>n \<in> set generated_names. path_join (iconset_dir sd) n = iconset_dir sd @ ''/'' @ n"
    by (simp add: generated_names_def in_iconset_dir)
  then have "(\<lambda>n. path_join (iconset_dir sd) n) ` set generated_names
     = (\<lambda>n. iconset_dir sd @ ''/'' @ n) ` set generated_names"
    by (intro image_cong [OF refl]) blast
  ultimately have "(\<lambda>n. path_join (iconset_dir sd) n) `
       (set (map icon_name SIZES) \<union> set (map icon_name_2x (filter (\<lambda>sz. sz \<le> 512) SIZES)))
     = (\<lambda>n. iconset_dir sd @ ''/'' @ n) ` set generated_names"
    by (simp only:)
  then show ?thesis
    by (simp only: png_files_before_packaging card_generated generate_icons_dom simp_thms)
qed

text \<open>
  C1, as stated, fails: run from the directory \<open>/repo\<close> with no files, the driver
  leaves 13 PNG files in the icon-set directory, not 12; \<open>icon_64x64.png\<close> and
  \<open>icon_64x64@2x.png\<close> are among them.
\<close>

theorem twelve_icons_counterexample:
  "card (png_files_in (iconset_dir ''/repo'') (before_packaging ''/repo'' empty_world)) = 13
   \<and> is_png (files (before_packaging ''/repo'' empty_world)
        (path_join (iconset_dir ''/repo'') ''icon_64x64.png''))
   \<and> is_png (files (before_packaging ''/repo'' empty_world)
        (path_join (iconset_dir ''/repo'') ''icon_64x64@2x.png''))"
proof (intro conjI)
  show "card (png_files_in (iconset_dir ''/repo'') (before_packaging ''/repo'' empty_world)) = 13"
    by (simp only: png_files_before_packaging card_generated)
qed (simp_all add: before_packaging_files generate_icons_files in_iconset_dir dir_neq_tmp)

section \<open>The packaging command\<close>





end
